theory Spec2Isabelle
  imports Main "HOL-Library.Char_ord" "HOL-Library.List_Lexorder"
begin

section \<open>Text\<close>

text \<open>
  A Python \<open>str\<close> is modelled as a \<open>string\<close>, one \<open>char\<close> per code point.  The
  topics, field names and field values of the protocol are ASCII text; the case mappings
  below act on the ASCII letters.
\<close>

text \<open>\<open>s.split(c)\<close> for a one-character separator: \<open>"".split("/") == [""]\<close>.\<close>

fun py_split :: "char \<Rightarrow> string \<Rightarrow> string list" where
  "py_split c [] = [[]]"
| "py_split c (x # xs) =
     (if x = c then [] # py_split c xs
      else (case py_split c xs of [] \<Rightarrow> [[x]] | w # ws \<Rightarrow> (x # w) # ws))"

text \<open>\<open>s.strip(c)\<close> for a one-character set: drops the leading and trailing run of \<open>c\<close>.\<close>

definition py_strip_chars :: "char \<Rightarrow> string \<Rightarrow> string" where
  "py_strip_chars c s = rev (dropWhile (\<lambda>x. x = c) (rev (dropWhile (\<lambda>x. x = c) s)))"

text \<open>\<open>sep.join(ws)\<close>.\<close>

fun py_join :: "string \<Rightarrow> string list \<Rightarrow> string" where
  "py_join sep [] = []"
| "py_join sep [w] = w"
| "py_join sep (w # v # ws) = w @ sep @ py_join sep (v # ws)"

text \<open>
  \<open>s.strip()\<close> drops the leading and trailing white space; these are the white-space code
  points below 256.
\<close>

definition is_space :: "char \<Rightarrow> bool" where
  "is_space c = (of_char c \<in> {9, 10, 11, 12, 13, 28, 29, 30, 31, 32, 133, 160 :: nat})"

definition py_strip :: "string \<Rightarrow> string" where
  "py_strip s = rev (dropWhile is_space (rev (dropWhile is_space s)))"

text \<open>\<open>s.lower()\<close> and \<open>s.upper()\<close> on the ASCII letters.\<close>

definition lower_char :: "char \<Rightarrow> char" where
  "lower_char c =
     (case map_of (zip ''ABCDEFGHIJKLMNOPQRSTUVWXYZ'' ''abcdefghijklmnopqrstuvwxyz'') c of
        None \<Rightarrow> c | Some l \<Rightarrow> l)"

definition upper_char :: "char \<Rightarrow> char" where
  "upper_char c =
     (case map_of (zip ''abcdefghijklmnopqrstuvwxyz'' ''ABCDEFGHIJKLMNOPQRSTUVWXYZ'') c of
        None \<Rightarrow> c | Some u \<Rightarrow> u)"

definition py_lower :: "string \<Rightarrow> string" where
  "py_lower s = map lower_char s"

definition py_upper :: "string \<Rightarrow> string" where
  "py_upper s = map upper_char s"

section \<open>ingest\_models: topics\<close>

record TopicInfo =
  ti_prefix :: string
  ti_customer :: string
  ti_location :: string
  ti_machine :: string
  ti_subtype :: string

text \<open>
  \<open>parse_topic\<close>: \<open>parts = [p for p in (topic or "").strip("/").split("/") if p]\<close>;
  fewer than five parts give \<open>None\<close>.  (\<open>topic or ""\<close> is \<open>topic\<close> for a \<open>str\<close>.)
\<close>

definition parse_topic :: "string \<Rightarrow> TopicInfo option" where
  "parse_topic topic =
     (let parts = filter (\<lambda>p. p \<noteq> []) (py_split (CHR ''/'') (py_strip_chars (CHR ''/'') topic))
      in if length parts < 5 then None
         else Some \<lparr> ti_prefix = parts ! 0, ti_customer = parts ! 1, ti_location = parts ! 2,
                     ti_machine = parts ! 3, ti_subtype = py_join ''/'' (drop 4 parts) \<rparr>)"

section \<open>Python values and the runtime\<close>

text \<open>
  Exceptions are values: a call that may raise returns \<open>py_error + 'a\<close>, \<open>Inl\<close> being the
  exception.  Every constructor below is a subclass of Python's \<open>Exception\<close>, so each one
  is caught by \<open>except Exception\<close>.
\<close>

datatype py_error =
  UnicodeDecodeError | JSONDecodeError | ValueError | TypeError | OverflowError
  | RecursionError | RuntimeError | DatabaseError

text \<open>
  Sequencing: when the first computation raises, the exception ends the whole; otherwise the
  second runs on the first one's result.
\<close>

definition bind_exn :: "py_error + 'a \<Rightarrow> ('a \<Rightarrow> py_error + 'b) \<Rightarrow> py_error + 'b" where
  "bind_exn x f = (case x of Inl e \<Rightarrow> Inl e | Inr v \<Rightarrow> f v)"

text \<open>
  A float is \<open>(-1)\<^sup>s * m * 2\<^sup>e\<close>, an infinity or a NaN.  How the runtime rounds and
  prints floats is left to the runtime record below.
\<close>

datatype pyfloat = Finite bool nat int | Infinity bool | NaN

text \<open>
  The values \<open>json.loads\<close> produces.  A \<open>dict\<close> is an association list in insertion order
  (its keys are strings, and distinct in Python).
\<close>

datatype pyval =
  PNone | PBool bool | PInt int | PFloat pyfloat | PStr string
  | PList "pyval list" | PDict "(string \<times> pyval) list"

type_synonym pydict = "(string \<times> pyval) list"
type_synonym bytes = "char list"

text \<open>A \<open>datetime\<close> in UTC, as microseconds since the epoch.\<close>

type_synonym datetime = int

text \<open>\<open>d.get(k)\<close>: \<open>None\<close> for a missing key, as for a key bound to \<open>None\<close>.\<close>

definition py_get :: "pydict \<Rightarrow> string \<Rightarrow> pyval" where
  "py_get d k = (case map_of d k of None \<Rightarrow> PNone | Some v \<Rightarrow> v)"

text \<open>
  The library calls whose results the code only passes on.  They are parameters of the
  model: \<open>bytes.decode\<close> in its two modes, \<open>json.loads\<close>, \<open>str\<close> of a float or a container,
  \<open>int\<close> and \<open>float\<close> of a string, the rounding of an integer to the nearest double,
  the \<open>.2f\<close> format of a float, \<open>datetime.fromtimestamp\<close> within the years that a
  \<open>datetime\<close> holds (the argument in milliseconds) and \<open>strftime\<close> with the ISO format.
\<close>

record pylib =
  decode_strict :: "bytes \<Rightarrow> py_error + string"
  decode_replace :: "bytes \<Rightarrow> string"
  json_loads :: "string \<Rightarrow> py_error + pyval"
  str_other :: "pyval \<Rightarrow> py_error + string"
  int_of_str :: "string \<Rightarrow> py_error + int"
  float_of_str :: "string \<Rightarrow> py_error + pyfloat"
  float_round :: "int \<Rightarrow> pyfloat"
  format_2f :: "pyfloat \<Rightarrow> string"
  fromtimestamp_in_range :: "int \<Rightarrow> py_error + datetime"
  strftime_iso :: "datetime \<Rightarrow> string"

text \<open>Decimal digits of an integer: \<open>str(n)\<close>.\<close>

fun str_nat :: "nat \<Rightarrow> string" where
  "str_nat n =
     (if n < 10 then [''0123456789'' ! n]
      else str_nat (n div 10) @ [''0123456789'' ! (n mod 10)])"

declare str_nat.simps [simp del]

definition str_int :: "int \<Rightarrow> string" where
  "str_int i = (if i < 0 then CHR ''-'' # str_nat (nat (- i)) else str_nat (nat i))"

text \<open>The builtin \<open>str(value)\<close>.\<close>

fun py_str :: "pylib \<Rightarrow> pyval \<Rightarrow> py_error + string" where
  "py_str lib PNone = Inr ''None''"
| "py_str lib (PBool b) = Inr (if b then ''True'' else ''False'')"
| "py_str lib (PInt n) = Inr (str_int n)"
| "py_str lib (PStr s) = Inr s"
| "py_str lib v = str_other lib v"

text \<open>\<open>int(f)\<close> of a float truncates towards zero and raises on an infinity or a NaN.\<close>

fun int_of_float :: "pyfloat \<Rightarrow> py_error + int" where
  "int_of_float (Finite s m e) =
     (let a = (if 0 \<le> e then int m * 2 ^ nat e else int (m div 2 ^ nat (- e)))
      in Inr (if s then - a else a))"
| "int_of_float (Infinity s) = Inl OverflowError"
| "int_of_float NaN = Inl ValueError"

text \<open>The builtin \<open>int(value)\<close>.\<close>

fun py_int :: "pylib \<Rightarrow> pyval \<Rightarrow> py_error + int" where
  "py_int lib (PBool b) = Inr (if b then 1 else 0)"
| "py_int lib (PInt n) = Inr n"
| "py_int lib (PFloat f) = int_of_float f"
| "py_int lib (PStr s) = int_of_str lib s"
| "py_int lib v = Inl TypeError"

text \<open>
  \<open>float(n)\<close> of an integer raises \<open>OverflowError\<close> when \<open>n\<close> rounds beyond the largest
  double, \<open>2\<^sup>1\<^sup>0\<^sup>2\<^sup>4 - 2\<^sup>9\<^sup>7\<^sup>1\<close>.
\<close>

definition float_of_int :: "pylib \<Rightarrow> int \<Rightarrow> py_error + pyfloat" where
  "float_of_int lib n =
     (if 2 ^ 1024 - 2 ^ 970 \<le> \<bar>n\<bar> then Inl OverflowError else Inr (float_round lib n))"

text \<open>The builtin \<open>float(value)\<close>.\<close>

fun py_float :: "pylib \<Rightarrow> pyval \<Rightarrow> py_error + pyfloat" where
  "py_float lib (PBool b) = float_of_int lib (if b then 1 else 0)"
| "py_float lib (PInt n) = float_of_int lib n"
| "py_float lib (PFloat f) = Inr f"
| "py_float lib (PStr s) = float_of_str lib s"
| "py_float lib v = Inl TypeError"

section \<open>ingest\_models: events\<close>

record IngestEvent =
  prefix :: string
  customer :: string
  location :: string
  machine :: string
  subtype :: string
  serial_number :: "string option"
  ts_ms :: "int option"
  qos :: "int option"
  retain :: "bool option"
  payload :: "pydict option"

text \<open>
  \<open>parse_payload\<close>.  The strict decoding is tried first; the handler of its exception decodes
  with replacement, which does not raise.  An exception of \<open>json.loads\<close> gives \<open>None\<close>, and
  so does a parsed value that is not a mapping.
\<close>

definition payload_text :: "pylib \<Rightarrow> bytes \<Rightarrow> string" where
  "payload_text lib payload_bytes =
     (case decode_strict lib payload_bytes of
        Inl e \<Rightarrow> decode_replace lib payload_bytes
      | Inr text \<Rightarrow> text)"

definition parse_payload :: "pylib \<Rightarrow> bytes \<Rightarrow> py_error + pydict option" where
  "parse_payload lib payload_bytes =
     (if payload_bytes = [] then Inr None
      else (case json_loads lib (payload_text lib payload_bytes) of
              Inl e \<Rightarrow> Inr None
            | Inr obj \<Rightarrow> (case obj of PDict d \<Rightarrow> Inr (Some d) | _ \<Rightarrow> Inr None)))"

text \<open>
  \<open>_safe_str\<close> and \<open>_safe_int\<close>.  The store modules carry their own copies of these two
  functions, identical to the ones of \<open>ingest_models\<close>.
\<close>

definition safe_str :: "pylib \<Rightarrow> pyval \<Rightarrow> py_error + string option" where
  "safe_str lib v =
     (case v of
        PNone \<Rightarrow> Inr None
      | PStr s \<Rightarrow> Inr (Some s)
      | _ \<Rightarrow> (case py_str lib v of Inl e \<Rightarrow> Inr None | Inr s \<Rightarrow> Inr (Some s)))"

definition safe_int :: "pylib \<Rightarrow> pyval \<Rightarrow> py_error + int option" where
  "safe_int lib v =
     (case v of
        PNone \<Rightarrow> Inr None
      | PBool b \<Rightarrow> Inr (Some (if b then 1 else 0))
      | PInt n \<Rightarrow> Inr (Some n)
      | _ \<Rightarrow> (case py_int lib v of Inl e \<Rightarrow> Inr None | Inr n \<Rightarrow> Inr (Some n)))"

text \<open>
  \<open>_safe_float\<close>: the conversion of a \<open>bool\<close>, an \<open>int\<close> or a \<open>float\<close> is outside the
  \<open>try\<close> block, so its exception leaves the function.
\<close>

definition safe_float :: "pylib \<Rightarrow> pyval \<Rightarrow> py_error + pyfloat option" where
  "safe_float lib v =
     (case v of
        PNone \<Rightarrow> Inr None
      | PBool b \<Rightarrow> map_sum id Some (float_of_int lib (if b then 1 else 0))
      | PInt n \<Rightarrow> map_sum id Some (float_of_int lib n)
      | PFloat f \<Rightarrow> Inr (Some f)
      | _ \<Rightarrow> (case py_float lib v of Inl e \<Rightarrow> Inr None | Inr f \<Rightarrow> Inr (Some f)))"

definition build_event ::
  "pylib \<Rightarrow> string \<Rightarrow> bytes \<Rightarrow> int option \<Rightarrow> bool option \<Rightarrow> py_error + IngestEvent option" where
  "build_event lib topic payload_bytes q r =
     (case parse_topic topic of
        None \<Rightarrow> Inr None
      | Some info \<Rightarrow>
          (case parse_payload lib payload_bytes of
             Inl e \<Rightarrow> Inl e
           | Inr pl \<Rightarrow>
               (case (case pl of
                        None \<Rightarrow> Inr (None, None)
                      | Some d \<Rightarrow>
                          (case safe_str lib (py_get d ''serial_number'') of
                             Inl e \<Rightarrow> Inl e
                           | Inr serial \<Rightarrow>
                               (case safe_int lib (py_get d ''ts'') of
                                  Inl e \<Rightarrow> Inl e
                                | Inr ts \<Rightarrow> Inr (serial, ts)))) of
                  Inl e \<Rightarrow> Inl e
                | Inr (serial, ts) \<Rightarrow>
                    Inr (Some \<lparr> prefix = ti_prefix info, customer = ti_customer info,
                                location = ti_location info, machine = ti_machine info,
                                subtype = ti_subtype info, serial_number = serial, ts_ms = ts,
                                qos = q, retain = r, payload = pl \<rparr>))))"

section \<open>The stores\<close>

text \<open>
  A table is the list of its rows, in insertion order, and the next value of its identity
  column.  The database is taken to execute every statement: a connection or statement
  that fails raises before the table changes, and the caller of the store handles the
  exception (see \<open>_on_message\<close>).  The columns \<open>created_at\<close> and \<open>updated_at\<close>, stamped by
  the server's clock, are left out, as are the stores' log lines.
\<close>

record 'r table =
  rows :: "'r list"
  next_id :: int

text \<open>
  \<open>DeviceStatusUpsertResult\<close>, \<open>DeviceOsStatusUpsertResult\<close> and
  \<open>DeviceStorageUpsertResult\<close>: the row's id and whether the row was created.
\<close>

record UpsertResult =
  row_id :: int
  created :: bool

text \<open>The clock the stores read when an event carries no timestamp.\<close>

record clock =
  utc_now :: datetime
  now_epoch :: int

text \<open>
  \<open>datetime.fromtimestamp(ts_ms / 1000.0, tz=timezone.utc)\<close> raises outside the years 1 to
  9999 (\<open>ValueError\<close> or \<open>OverflowError\<close>, by the magnitude); within them the result is the
  runtime's.
\<close>

definition fromtimestamp_ms :: "pylib \<Rightarrow> int \<Rightarrow> py_error + datetime" where
  "fromtimestamp_ms lib ms =
     (if ms < - 62135596800000 \<or> 253402300800000 \<le> ms then Inl ValueError
      else fromtimestamp_in_range lib ms)"

text \<open>\<open>_event_timestamp\<close>, the same function in each store module.\<close>

definition event_timestamp :: "pylib \<Rightarrow> clock \<Rightarrow> IngestEvent \<Rightarrow> py_error + int \<times> datetime" where
  "event_timestamp lib clk event =
     (case ts_ms event of
        Some ms \<Rightarrow>
          (case fromtimestamp_ms lib ms of
             Inl e \<Rightarrow> Inl e
           | Inr ts_dt \<Rightarrow> Inr (ms div 1000, ts_dt))
      | None \<Rightarrow> Inr (now_epoch clk, utc_now clk))"

subsection \<open>device\_status\_store\<close>

record status_row =
  st_id :: int
  st_device_id :: int
  st_status :: string
  st_ts_epoch :: int
  st_ts_datetime :: datetime
  st_offline_since :: "datetime option"

text \<open>\<open>SELECT id, status, offline_since FROM dbo.device_status WHERE device_id = ?\<close>, first row.\<close>

definition status_select_by_device_id :: "status_row table \<Rightarrow> int \<Rightarrow> status_row option" where
  "status_select_by_device_id tbl device_id = find (\<lambda>r. st_device_id r = device_id) (rows tbl)"

definition insert_status ::
  "status_row table \<Rightarrow> int \<Rightarrow> string \<Rightarrow> int \<Rightarrow> datetime \<Rightarrow> datetime option \<Rightarrow> int \<times> status_row table" where
  "insert_status tbl device_id status ts_epoch ts_datetime offline_since =
     (next_id tbl,
      \<lparr> rows = rows tbl @ [\<lparr> st_id = next_id tbl, st_device_id = device_id, st_status = status,
                              st_ts_epoch = ts_epoch, st_ts_datetime = ts_datetime,
                              st_offline_since = offline_since \<rparr>],
        next_id = next_id tbl + 1 \<rparr>)"

definition update_status ::
  "status_row table \<Rightarrow> int \<Rightarrow> string \<Rightarrow> int \<Rightarrow> datetime \<Rightarrow> datetime option \<Rightarrow> status_row table" where
  "update_status tbl status_id status ts_epoch ts_datetime offline_since =
     tbl \<lparr> rows := map (\<lambda>r. if st_id r = status_id
                            then r \<lparr> st_status := status, st_ts_epoch := ts_epoch,
                                     st_ts_datetime := ts_datetime,
                                     st_offline_since := offline_since \<rparr>
                            else r) (rows tbl) \<rparr>"

definition upsert_status ::
  "status_row table \<Rightarrow> int \<Rightarrow> string \<Rightarrow> int \<Rightarrow> datetime \<Rightarrow> UpsertResult \<times> status_row table" where
  "upsert_status tbl device_id status ts_epoch ts_datetime =
     (case status_select_by_device_id tbl device_id of
        None \<Rightarrow>
          (let offline_since = (if status = ''offline'' then Some ts_datetime else None);
               (status_id, tbl') = insert_status tbl device_id status ts_epoch ts_datetime offline_since
           in (\<lparr> row_id = status_id, created = True \<rparr>, tbl'))
      | Some row \<Rightarrow>
          (let status_id = st_id row;
               prev_offline_since = st_offline_since row;
               offline_since =
                 (if status = ''offline''
                  then (case prev_offline_since of Some p \<Rightarrow> Some p | None \<Rightarrow> Some ts_datetime)
                  else None)
           in (\<lparr> row_id = status_id, created = False \<rparr>,
               update_status tbl status_id status ts_epoch ts_datetime offline_since)))"




subsection \<open>device\_os\_status\_store\<close>







subsection \<open>device\_statistics\_store\<close>







subsection \<open>device\_storage\_status\_store\<close>

record storage_row =
  sg_id :: int
  sg_device_id :: int
  sg_drive :: string
  sg_drive_type :: "string option"
  sg_format :: "string option"
  sg_total_gb :: "pyfloat option"
  sg_free_gb :: "pyfloat option"
  sg_used_gb :: "pyfloat option"
  sg_usage_percent :: "pyfloat option"
  sg_ts_epoch :: int
  sg_ts_datetime :: datetime

text \<open>
  \<open>_normalize_drive\<close>; no exception leaves it.  The comparison \<open>"A" <= drive <= "Z"\<close> is
  the lexicographic order of strings by code point.
\<close>

definition normalize_drive :: "pylib \<Rightarrow> pyval \<Rightarrow> string option" where
  "normalize_drive lib v =
     (case (case v of
              PNone \<Rightarrow> None
            | PStr s \<Rightarrow> Some (py_strip s)
            | _ \<Rightarrow> (case py_str lib v of Inl e \<Rightarrow> None | Inr s \<Rightarrow> Some (py_strip s))) of
        None \<Rightarrow> None
      | Some stripped \<Rightarrow>
          (if stripped = [] then None
           else (let drive = (if 2 \<le> length stripped \<and> stripped ! 1 = CHR '':''
                              then [stripped ! 0] else stripped);
                     drive = py_upper drive
                 in if length drive \<noteq> 1 then None
                    else if \<not> (''A'' \<le> drive \<and> drive \<le> ''Z'') then None
                    else Some drive)))"

definition select_by_device_and_drive :: "storage_row table \<Rightarrow> int \<Rightarrow> string \<Rightarrow> storage_row option" where
  "select_by_device_and_drive tbl device_id drive =
     find (\<lambda>r. sg_device_id r = device_id \<and> sg_drive r = drive) (rows tbl)"

text \<open>
  The values of one drive, as \<open>ensure_from_event\<close> reads them: \<open>total_gb\<close>, \<open>free_gb\<close>,
  \<open>used_gb\<close>, \<open>used_pct\<close>, \<open>drive_type\<close> and \<open>format\<close>, in this order; the first conversion
  that raises ends the reading.
\<close>

record drive_values =
  dv_drive_type :: "string option"
  dv_format :: "string option"
  dv_total_gb :: "pyfloat option"
  dv_free_gb :: "pyfloat option"
  dv_used_gb :: "pyfloat option"
  dv_usage_percent :: "pyfloat option"

definition read_drive_values :: "pylib \<Rightarrow> pydict \<Rightarrow> py_error + drive_values" where
  "read_drive_values lib info_map =
     bind_exn (safe_float lib (py_get info_map ''total_gb'')) (\<lambda>total_gb.
     bind_exn (safe_float lib (py_get info_map ''free_gb'')) (\<lambda>free_gb.
     bind_exn (safe_float lib (py_get info_map ''used_gb'')) (\<lambda>used_gb.
     bind_exn (safe_float lib (py_get info_map ''used_pct'')) (\<lambda>usage_percent.
     bind_exn (safe_str lib (py_get info_map ''drive_type'')) (\<lambda>drive_type.
     bind_exn (safe_str lib (py_get info_map ''format'')) (\<lambda>fmt.
       Inr \<lparr> dv_drive_type = drive_type, dv_format = fmt, dv_total_gb = total_gb,
             dv_free_gb = free_gb, dv_used_gb = used_gb,
             dv_usage_percent = usage_percent \<rparr>))))))"

definition insert_drive ::
  "storage_row table \<Rightarrow> int \<Rightarrow> string \<Rightarrow> drive_values \<Rightarrow> int \<Rightarrow> datetime \<Rightarrow> int \<times> storage_row table" where
  "insert_drive tbl device_id drive dv ts_epoch ts_datetime =
     (next_id tbl,
      \<lparr> rows = rows tbl @
          [\<lparr> sg_id = next_id tbl, sg_device_id = device_id, sg_drive = drive,
              sg_drive_type = dv_drive_type dv, sg_format = dv_format dv,
              sg_total_gb = dv_total_gb dv, sg_free_gb = dv_free_gb dv,
              sg_used_gb = dv_used_gb dv, sg_usage_percent = dv_usage_percent dv,
              sg_ts_epoch = ts_epoch, sg_ts_datetime = ts_datetime \<rparr>],
        next_id = next_id tbl + 1 \<rparr>)"

definition update_drive ::
  "storage_row table \<Rightarrow> int \<Rightarrow> drive_values \<Rightarrow> int \<Rightarrow> datetime \<Rightarrow> storage_row table" where
  "update_drive tbl storage_id dv ts_epoch ts_datetime =
     tbl \<lparr> rows := map (\<lambda>r. if sg_id r = storage_id
                            then r \<lparr> sg_drive_type := dv_drive_type dv, sg_format := dv_format dv,
                                     sg_total_gb := dv_total_gb dv, sg_free_gb := dv_free_gb dv,
                                     sg_used_gb := dv_used_gb dv,
                                     sg_usage_percent := dv_usage_percent dv,
                                     sg_ts_epoch := ts_epoch, sg_ts_datetime := ts_datetime \<rparr>
                            else r) (rows tbl) \<rparr>"

definition upsert_drive ::
  "storage_row table \<Rightarrow> int \<Rightarrow> string \<Rightarrow> drive_values \<Rightarrow> int \<Rightarrow> datetime
     \<Rightarrow> UpsertResult \<times> storage_row table" where
  "upsert_drive tbl device_id drive dv ts_epoch ts_datetime =
     (case select_by_device_and_drive tbl device_id drive of
        None \<Rightarrow>
          (let (storage_id, tbl') = insert_drive tbl device_id drive dv ts_epoch ts_datetime
           in (\<lparr> row_id = storage_id, created = True \<rparr>, tbl'))
      | Some row \<Rightarrow>
          (\<lparr> row_id = sg_id row, created = False \<rparr>,
           update_drive tbl (sg_id row) dv ts_epoch ts_datetime))"

text \<open>
  The loop of \<open>ensure_from_event\<close> over \<open>storage_map.items()\<close>: a drive whose name does not
  normalize, or whose value is not a mapping, is passed over; \<open>upserts\<close> counts the others.
\<close>

fun upsert_drives ::
  "pylib \<Rightarrow> int \<Rightarrow> int \<Rightarrow> datetime \<Rightarrow> (string \<times> pyval) list \<Rightarrow> storage_row table \<Rightarrow> int
     \<Rightarrow> (py_error + int) \<times> storage_row table" where
  "upsert_drives lib device_id ts_epoch ts_dt [] tbl upserts = (Inr upserts, tbl)"
| "upsert_drives lib device_id ts_epoch ts_dt ((drive, info) # rest) tbl upserts =
     (case normalize_drive lib (PStr drive) of
        None \<Rightarrow> upsert_drives lib device_id ts_epoch ts_dt rest tbl upserts
      | Some drive_name \<Rightarrow>
          (case info of
             PDict info_map \<Rightarrow>
               (case read_drive_values lib info_map of
                  Inl e \<Rightarrow> (Inl e, tbl)
                | Inr dv \<Rightarrow>
                    upsert_drives lib device_id ts_epoch ts_dt rest
                      (snd (upsert_drive tbl device_id drive_name dv ts_epoch ts_dt))
                      (upserts + 1))
           | _ \<Rightarrow> upsert_drives lib device_id ts_epoch ts_dt rest tbl upserts))"

definition storage_ensure_from_event ::
  "pylib \<Rightarrow> clock \<Rightarrow> IngestEvent \<Rightarrow> int \<Rightarrow> storage_row table
     \<Rightarrow> (py_error + int) \<times> storage_row table" where
  "storage_ensure_from_event lib clk event device_id tbl =
     (if subtype event \<noteq> ''storage'' then (Inr 0, tbl)
      else (case payload event of
              None \<Rightarrow> (Inr 0, tbl)
            | Some p \<Rightarrow>
                (case py_get p ''storage'' of
                   PDict storage_map \<Rightarrow>
                     (case event_timestamp lib clk event of
                        Inl e \<Rightarrow> (Inl e, tbl)
                      | Inr (ts_epoch, ts_dt) \<Rightarrow>
                          upsert_drives lib device_id ts_epoch ts_dt storage_map tbl 0)
                 | _ \<Rightarrow> (Inr 0, tbl))))"

section \<open>ingest\_models: the log line\<close>

text \<open>\<open>s.split()\<close>: the maximal runs of characters that are not white space.\<close>

fun split_ws_from :: "string \<Rightarrow> string \<Rightarrow> string list" where
  "split_ws_from cur [] = (if cur = [] then [] else [cur])"
| "split_ws_from cur (c # cs) =
     (if is_space c then (if cur = [] then split_ws_from [] cs else cur # split_ws_from [] cs)
      else split_ws_from (cur @ [c]) cs)"

definition py_split_ws :: "string \<Rightarrow> string list" where
  "py_split_ws s = split_ws_from [] s"

definition py_rstrip_char :: "char \<Rightarrow> string \<Rightarrow> string" where
  "py_rstrip_char c s = rev (dropWhile (\<lambda>x. x = c) (rev s))"

definition fmt_int :: "int option \<Rightarrow> string" where
  "fmt_int v = (case v of None \<Rightarrow> ''?'' | Some n \<Rightarrow> str_int n)"

definition fmt_float :: "pylib \<Rightarrow> pyfloat option \<Rightarrow> string" where
  "fmt_float lib v =
     (case v of
        None \<Rightarrow> ''?''
      | Some f \<Rightarrow> py_rstrip_char (CHR ''.'') (py_rstrip_char (CHR ''0'') (format_2f lib f)))"

definition squash_ws :: "string \<Rightarrow> string" where
  "squash_ws v = py_join '' '' (py_split_ws v)"

text \<open>
  The horizontal ellipsis that \<open>_shorten\<close> appends is one code point beyond 255; it is
  written with three full stops here.  Only the text of a shortened log field depends on it.
\<close>

definition ellipsis :: string where
  "ellipsis = ''...''"

definition shorten :: "string \<Rightarrow> int \<Rightarrow> string" where
  "shorten v max_len =
     (if max_len \<le> 0 then []
      else if int (length v) \<le> max_len then v
      else if max_len \<le> 1 then take (nat max_len) v
      else take (nat (max_len - 1)) v @ ellipsis)"

definition short_os :: "string \<Rightarrow> string" where
  "short_os v =
     (let text = squash_ws v;
          text = (if take 10 (py_lower text) = ''microsoft '' then drop 10 text else text)
      in shorten text 48)"

definition short_state :: "string option \<Rightarrow> string" where
  "short_state value =
     (case value of
        None \<Rightarrow> ''?''
      | Some s \<Rightarrow>
          (if s = [] then ''?''
           else (let v = py_lower (squash_ws s)
                 in if v = ''online'' then ''ON''
                    else if v = ''offline'' then ''OFF''
                    else shorten v 12)))"

text \<open>
  The property \<open>ts_iso\<close>: an exception of \<open>datetime.fromtimestamp\<close> gives \<open>None\<close>.
\<close>

definition ts_iso :: "pylib \<Rightarrow> IngestEvent \<Rightarrow> string option" where
  "ts_iso lib self =
     (case ts_ms self of
        None \<Rightarrow> None
      | Some ms \<Rightarrow>
          (case fromtimestamp_ms lib ms of
             Inl e \<Rightarrow> None
           | Inr dt \<Rightarrow> Some (strftime_iso lib dt)))"

text \<open>\<open>x or "?"\<close> for an optional string.\<close>

definition or_question :: "string option \<Rightarrow> string" where
  "or_question v = (case v of None \<Rightarrow> ''?'' | Some s \<Rightarrow> if s = [] then ''?'' else s)"

text \<open>
  The storage branch of \<open>to_log_line\<close>: one part for each drive whose value is a mapping.
  The three calls of \<open>_safe_float\<close> are not guarded, so an exception of theirs leaves
  \<open>to_log_line\<close>.
\<close>

definition storage_part :: "pylib \<Rightarrow> string \<Rightarrow> pydict \<Rightarrow> py_error + string" where
  "storage_part lib drive info_map =
     bind_exn (safe_float lib (py_get info_map ''used_pct'')) (\<lambda>used_pct.
     bind_exn (safe_float lib (py_get info_map ''used_gb'')) (\<lambda>used_gb.
     bind_exn (safe_float lib (py_get info_map ''total_gb'')) (\<lambda>total_gb.
       Inr (drive @ '': ''
            @ (if used_pct \<noteq> None then fmt_float lib used_pct @ ''%'' else ''?'')
            @ '' (''
            @ (if used_gb \<noteq> None then fmt_float lib used_gb @ ''GB'' else ''?'')
            @ ''/''
            @ (if total_gb \<noteq> None then fmt_float lib total_gb @ ''GB'' else ''?'')
            @ '')''))))"

fun storage_parts :: "pylib \<Rightarrow> (string \<times> pyval) list \<Rightarrow> py_error + string list" where
  "storage_parts lib [] = Inr []"
| "storage_parts lib ((drive, info) # rest) =
     (case info of
        PDict info_map \<Rightarrow>
          (case storage_part lib drive info_map of
             Inl e \<Rightarrow> Inl e
           | Inr part \<Rightarrow>
               (case storage_parts lib rest of
                  Inl e \<Rightarrow> Inl e
                | Inr parts \<Rightarrow> Inr (part # parts)))
      | _ \<Rightarrow> storage_parts lib rest)"

definition statistics_summary :: "pylib \<Rightarrow> pydict \<Rightarrow> py_error + string" where
  "statistics_summary lib stats_map =
     bind_exn (safe_int lib (py_get stats_map ''total_items'')) (\<lambda>v_total.
     bind_exn (safe_int lib (py_get stats_map ''good_reads'')) (\<lambda>v_good.
     bind_exn (safe_int lib (py_get stats_map ''no_reads'')) (\<lambda>v_no_reads.
     bind_exn (safe_int lib (py_get stats_map ''out_of_spec'')) (\<lambda>v_out_of_spec.
     bind_exn (safe_int lib (py_get stats_map ''success'')) (\<lambda>v_success.
     bind_exn (safe_int lib (py_get stats_map ''sent'')) (\<lambda>v_sent.
       Inr ('' total='' @ fmt_int v_total @ '' good='' @ fmt_int v_good
            @ '' nrd='' @ fmt_int v_no_reads @ '' oos='' @ fmt_int v_out_of_spec
            @ '' ok='' @ fmt_int v_success @ '' sent='' @ fmt_int v_sent)))))))"

definition to_log_line :: "pylib \<Rightarrow> IngestEvent \<Rightarrow> py_error + string" where
  "to_log_line lib self =
     (let loc = customer self @ ''/'' @ location self @ ''/'' @ machine self;
          retain_mark = (if retain self = Some True then '' R'' else []);
          ts = or_question (ts_iso lib self);
          serial = or_question (serial_number self);
          head = (\<lambda>kind. prefix self @ '' '' @ loc @ '' '' @ kind @ retain_mark
                          @ '' ts='' @ ts @ '' sn='' @ serial)
      in case payload self of
           None \<Rightarrow> Inr (head (subtype self) @ '' payload=<unparsed>'')
         | Some p \<Rightarrow>
             (if subtype self = ''status'' then
                bind_exn (safe_str lib (py_get p ''device_status'')) (\<lambda>status.
                bind_exn (safe_str lib (py_get p ''device_os_version'')) (\<lambda>os_text.
                  Inr (head ''status'' @ '' state='' @ short_state status
                       @ (case os_text of
                            None \<Rightarrow> []
                          | Some os \<Rightarrow>
                              (if os = [] then []
                               else '' os='' @ [CHR 0x22] @ short_os os @ [CHR 0x22])))))
              else if subtype self = ''statistics'' then
                (case py_get p ''statistics'' of
                   PDict stats_map \<Rightarrow>
                     (case statistics_summary lib stats_map of
                        Inl e \<Rightarrow> Inl e
                      | Inr summary \<Rightarrow> Inr (head ''statistics'' @ summary))
                 | _ \<Rightarrow> Inr (head ''statistics'' @ '' statistics=<invalid>''))
              else if subtype self = ''storage'' then
                (case py_get p ''storage'' of
                   PDict storage_map \<Rightarrow>
                     (case storage_parts lib storage_map of
                        Inl e \<Rightarrow> Inl e
                      | Inr parts \<Rightarrow>
                          Inr (head ''storage'' @ '' ''
                               @ (if parts = [] then ''<empty>'' else py_join '', '' parts)))
                 | _ \<Rightarrow> Inr (head ''storage'' @ '' storage=<invalid>''))
              else Inr (head (subtype self) @ '' keys=['' @ py_join '','' (sort (map fst p))
                        @ '']'')))"

section \<open>mqtt\_client: the message handler\<close>

text \<open>
  The stores are given to the connector when it is built, each of them or none.  Their
  methods are parameters here: a call takes the state of the world behind the stores to an
  outcome (an exception, or a result) and a new state.  \<open>DeviceUpsertResult\<close> has the shape
  of \<open>UpsertResult\<close>, its \<open>row_id\<close> being the device id; what a signal store returns is
  not used by the handler.
\<close>

record 'w stores =
  device_store :: "(IngestEvent \<Rightarrow> 'w \<Rightarrow> (py_error + UpsertResult option) \<times> 'w) option"
  device_status_store :: "(IngestEvent \<Rightarrow> int \<Rightarrow> 'w \<Rightarrow> py_error option \<times> 'w) option"
  device_os_status_store :: "(IngestEvent \<Rightarrow> int \<Rightarrow> 'w \<Rightarrow> py_error option \<times> 'w) option"
  device_storage_status_store :: "(IngestEvent \<Rightarrow> int \<Rightarrow> 'w \<Rightarrow> py_error option \<times> 'w) option"
  device_statistics_store :: "(IngestEvent \<Rightarrow> int \<Rightarrow> 'w \<Rightarrow> py_error option \<times> 'w) option"

record mqtt_message =
  msg_topic :: string
  msg_payload :: bytes
  msg_qos :: "int option"
  msg_retain :: "bool option"

text \<open>What the handler writes to its logger.\<close>

datatype log_entry =
  LogUnmatched string "bool option" "int option" nat
  | LogException string py_error
  | LogInfo string

text \<open>
  One guarded call: \<open>if device_result is not None and store is not None and event.subtype ==
  wanted: try: store(event, device_id=device_result.device_id) except Exception:
  logger.exception(label)\<close>.
\<close>

definition try_store ::
  "string \<Rightarrow> (IngestEvent \<Rightarrow> int \<Rightarrow> 'w \<Rightarrow> py_error option \<times> 'w) \<Rightarrow> IngestEvent \<Rightarrow> int
     \<Rightarrow> 'w \<times> log_entry list \<Rightarrow> 'w \<times> log_entry list" where
  "try_store label call event device_id st =
     (case call event device_id (fst st) of
        (None, w') \<Rightarrow> (w', snd st)
      | (Some e, w') \<Rightarrow> (w', snd st @ [LogException label e]))"

definition guarded_store ::
  "string \<Rightarrow> (IngestEvent \<Rightarrow> int \<Rightarrow> 'w \<Rightarrow> py_error option \<times> 'w) option \<Rightarrow> string
     \<Rightarrow> UpsertResult option \<Rightarrow> IngestEvent \<Rightarrow> 'w \<times> log_entry list \<Rightarrow> 'w \<times> log_entry list" where
  "guarded_store label store wanted device_result event st =
     (case device_result of
        None \<Rightarrow> st
      | Some res \<Rightarrow>
          (case store of
             None \<Rightarrow> st
           | Some call \<Rightarrow>
               if subtype event = wanted then try_store label call event (row_id res) st
               else st))"

text \<open>The four guarded calls, in the handler's order.\<close>

definition dispatch_stores ::
  "'w stores \<Rightarrow> UpsertResult option \<Rightarrow> IngestEvent \<Rightarrow> 'w \<times> log_entry list \<Rightarrow> 'w \<times> log_entry list" where
  "dispatch_stores sts device_result event st =
     guarded_store ''Device statistics insert failed'' (device_statistics_store sts) ''statistics''
       device_result event
       (guarded_store ''Device storage upsert failed'' (device_storage_status_store sts) ''storage''
          device_result event
          (guarded_store ''Device OS status upsert failed'' (device_os_status_store sts) ''status''
             device_result event
             (guarded_store ''Device status upsert failed'' (device_status_store sts) ''status''
                device_result event st)))"

text \<open>
  \<open>_on_message\<close>.  Its last statement, \<open>self._logger.info(event.to_log_line())\<close>, is outside
  every \<open>try\<close> block.
\<close>

definition on_message ::
  "pylib \<Rightarrow> 'w stores \<Rightarrow> mqtt_message \<Rightarrow> 'w \<times> log_entry list
     \<Rightarrow> (py_error + unit) \<times> 'w \<times> log_entry list" where
  "on_message lib sts msg st =
     (case build_event lib (msg_topic msg) (msg_payload msg) (msg_qos msg) (msg_retain msg) of
        Inl e \<Rightarrow> (Inl e, st)
      | Inr None \<Rightarrow>
          (Inr (), fst st,
           snd st @ [LogUnmatched (msg_topic msg) (msg_retain msg) (msg_qos msg)
                       (length (msg_payload msg))])
      | Inr (Some event) \<Rightarrow>
          (let st' =
                 (case device_store sts of
                    None \<Rightarrow> st
                  | Some ensure \<Rightarrow>
                      (case ensure event (fst st) of
                         (Inl e, w') \<Rightarrow>
                           dispatch_stores sts None event
                             (w', snd st @ [LogException ''Device upsert failed'' e])
                       | (Inr device_result, w') \<Rightarrow>
                           dispatch_stores sts device_result event (w', snd st)))
           in case to_log_line lib event of
                Inl e \<Rightarrow> (Inl e, st')
              | Inr line \<Rightarrow> (Inr (), fst st', snd st' @ [LogInfo line])))"

section \<open>Sequences of store operations\<close>

text \<open>
  The predicate that the status table is to keep: \<open>offline_since\<close> is set exactly on the
  rows whose status is \<open>offline\<close>.
\<close>

definition status_invariant :: "status_row \<Rightarrow> bool" where
  "status_invariant r \<longleftrightarrow> (st_offline_since r \<noteq> None) = (st_status r = ''offline'')"

text \<open>
  Successive calls of \<open>upsert_status\<close>, and successive statistics events of one device
  (a call that raises leaves the table as it is, and the next event is handled).
\<close>

fun upsert_status_all :: "status_row table \<Rightarrow> (int \<times> string \<times> int \<times> datetime) list \<Rightarrow> status_row table" where
  "upsert_status_all tbl [] = tbl"
| "upsert_status_all tbl ((device_id, status, ts_epoch, ts_datetime) # ops) =
     upsert_status_all (snd (upsert_status tbl device_id status ts_epoch ts_datetime)) ops"



text \<open>
  What one guarded call of the handler is to do to the world, and to the log, whether or not
  the store raises: the store's own effect when the store is configured and the subtype is
  the store's, nothing otherwise; and one log entry for an exception.
\<close>

definition store_effect ::
  "(IngestEvent \<Rightarrow> int \<Rightarrow> 'w \<Rightarrow> py_error option \<times> 'w) option \<Rightarrow> string \<Rightarrow> IngestEvent \<Rightarrow> int \<Rightarrow> 'w \<Rightarrow> 'w" where
  "store_effect store wanted event device_id w =
     (case store of
        None \<Rightarrow> w
      | Some call \<Rightarrow> if subtype event = wanted then snd (call event device_id w) else w)"

definition store_failure ::
  "string \<Rightarrow> (IngestEvent \<Rightarrow> int \<Rightarrow> 'w \<Rightarrow> py_error option \<times> 'w) option \<Rightarrow> string \<Rightarrow> IngestEvent \<Rightarrow> int \<Rightarrow> 'w
     \<Rightarrow> log_entry list" where
  "store_failure label store wanted event device_id w =
     (case store of
        None \<Rightarrow> []
      | Some call \<Rightarrow>
          if subtype event = wanted
          then (case fst (call event device_id w) of None \<Rightarrow> [] | Some e \<Rightarrow> [LogException label e])
          else [])"

section \<open>A runtime instance for evaluation\<close>

text \<open>
  For evaluating the model on concrete messages: the bytes decode to themselves,
  \<open>json.loads\<close> returns the given outcome, and no string converts to a number.
\<close>

definition fixed_lib :: "py_error + pyval \<Rightarrow> pylib" where
  "fixed_lib parsed =
     \<lparr> decode_strict = Inr, decode_replace = id, json_loads = (\<lambda>text. parsed),
       str_other = (\<lambda>v. Inl RecursionError), int_of_str = (\<lambda>s. Inl ValueError),
       float_of_str = (\<lambda>s. Inl ValueError), float_round = (\<lambda>n. Finite (n < 0) (nat \<bar>n\<bar>) 0),
       format_2f = (\<lambda>f. ''?''), fromtimestamp_in_range = (\<lambda>ms. Inr (ms * 1000)),
       strftime_iso = (\<lambda>dt. ''T'') \<rparr>"

text \<open>A status table whose device 7 has been offline since second 5.\<close>

definition demo_offline_table :: "status_row table" where
  "demo_offline_table =
     \<lparr> rows = [\<lparr> st_id = 1, st_device_id = 7, st_status = ''offline'', st_ts_epoch = 5,
                 st_ts_datetime = 5000000, st_offline_since = Some 5000000 \<rparr>],
       next_id = 2 \<rparr>"

text \<open>A clock reading, and events of the device \<open>SN1\<close> with a given payload.\<close>

definition demo_clock :: clock where
  "demo_clock = \<lparr> utc_now = 1700000100000000, now_epoch = 1700000100 \<rparr>"





definition storage_event :: "pydict \<Rightarrow> IngestEvent" where
  "storage_event p =
     \<lparr> prefix = ''iot'', customer = ''acme'', location = ''plant1'', machine = ''line3'',
       subtype = ''storage'', serial_number = Some ''SN1'', ts_ms = None, qos = Some 0,
       retain = Some False, payload = Some p \<rparr>"

text \<open>
  A storage packet whose \<open>used_pct\<close> is the integer \<open>10\<^sup>4\<^sup>0\<^sup>0\<close>, written in the JSON body as a
  one followed by 400 zeros, and the message that carries it.
\<close>

definition huge_int :: int where
  "huge_int = 10 ^ 400"

definition huge_storage_payload :: pydict where
  "huge_storage_payload =
     [(''serial_number'', PStr ''SN1''),
      (''storage'', PDict [(''C'', PDict [(''used_pct'', PInt huge_int)])])]"

definition huge_storage_message :: mqtt_message where
  "huge_storage_message =
     \<lparr> msg_topic = ''iot/acme/plant1/line3/storage'', msg_payload = ''{...}'',
       msg_qos = Some 0, msg_retain = Some False \<rparr>"

section \<open>Sequencing\<close>

lemma bind_exn_Inl [simp]: "bind_exn (Inl e) f = Inl e"
  by (simp add: bind_exn_def)

lemma bind_exn_Inr [simp]: "bind_exn (Inr v) f = f v"
  by (simp add: bind_exn_def)

section \<open>Properties of the topic decoder\<close>

lemma py_split_not_Nil: "py_split c s \<noteq> []"
  by (induction s) (auto split: list.splits)

lemma py_split_snoc_sep: "py_split c (s @ [c]) = py_split c s @ [[]]"
  by (induction s) (auto split: list.splits simp: py_split_not_Nil)

lemma segments_dropWhile:
  "filter (\<lambda>p. p \<noteq> []) (py_split c (dropWhile (\<lambda>x. x = c) s)) =
   filter (\<lambda>p. p \<noteq> []) (py_split c s)"
  by (induction s) (auto split: list.splits)

lemma segments_rev_dropWhile:
  "filter (\<lambda>p. p \<noteq> []) (py_split c (rev (dropWhile (\<lambda>x. x = c) (rev s)))) =
   filter (\<lambda>p. p \<noteq> []) (py_split c s)"
proof (induction s rule: rev_induct)
  case Nil
  show ?case by simp
next
  case (snoc x xs)
  show ?case
  proof (cases "x = c")
    case True
    then show ?thesis using snoc by (simp add: py_split_snoc_sep)
  next
    case False
    then show ?thesis by simp
  qed
qed

lemma segments_strip:
  "filter (\<lambda>p. p \<noteq> []) (py_split c (py_strip_chars c s)) =
   filter (\<lambda>p. p \<noteq> []) (py_split c s)"
  unfolding py_strip_chars_def by (simp add: segments_rev_dropWhile segments_dropWhile)

lemma parse_topic_by_segments:
  "parse_topic topic =
     (let segs = filter (\<lambda>p. p \<noteq> []) (py_split (CHR ''/'') topic)
      in if length segs < 5 then None
         else Some \<lparr> ti_prefix = segs ! 0, ti_customer = segs ! 1, ti_location = segs ! 2,
                     ti_machine = segs ! 3, ti_subtype = py_join ''/'' (drop 4 segs) \<rparr>)"
  unfolding parse_topic_def by (simp only: segments_strip)


section \<open>Properties of the payload decoder\<close>

lemma parse_topic_None_iff:
  "parse_topic topic = None \<longleftrightarrow> length (filter (\<lambda>p. p \<noteq> []) (py_split (CHR ''/'') topic)) < 5"
  by (simp add: parse_topic_by_segments Let_def)

lemma safe_str_total: "\<exists>s. safe_str lib v = Inr s"
  by (cases v) (auto simp: safe_str_def split: sum.splits)

lemma safe_int_total: "\<exists>n. safe_int lib v = Inr n"
  by (cases v) (auto simp: safe_int_def split: sum.splits)

lemma parse_payload_total: "\<exists>p. parse_payload lib b = Inr p"
  by (auto simp: parse_payload_def split: sum.splits pyval.splits)

lemma build_event_total: "\<exists>res. build_event lib topic b q r = Inr res"
proof -
  obtain p where p: "parse_payload lib b = Inr p" using parse_payload_total by blast
  show ?thesis
  proof (cases p)
    case None
    then show ?thesis using p by (simp add: build_event_def split: option.splits)
  next
    case (Some d)
    obtain s where s: "safe_str lib (py_get d ''serial_number'') = Inr s" using safe_str_total by blast
    obtain n where n: "safe_int lib (py_get d ''ts'') = Inr n" using safe_int_total by blast
    show ?thesis using p Some s n by (simp add: build_event_def split: option.splits)
  qed
qed

lemma build_event_None_iff:
  "build_event lib topic b q r = Inr None \<longleftrightarrow> parse_topic topic = None"
proof (cases "parse_topic topic")
  case None
  then show ?thesis by (simp add: build_event_def)
next
  case (Some info)
  obtain p where p: "parse_payload lib b = Inr p" using parse_payload_total by blast
  show ?thesis
  proof (cases p)
    case None
    then show ?thesis using p Some by (simp add: build_event_def)
  next
    case (Some d)
    obtain s where s: "safe_str lib (py_get d ''serial_number'') = Inr s" using safe_str_total by blast
    obtain n where n: "safe_int lib (py_get d ''ts'') = Inr n" using safe_int_total by blast
    show ?thesis using p Some s n \<open>parse_topic topic = Some info\<close> by (simp add: build_event_def)
  qed
qed

lemma build_event_no_payload:
  assumes "parse_topic topic = Some info" and "parse_payload lib b = Inr None"
  shows "build_event lib topic b q r =
     Inr (Some \<lparr> prefix = ti_prefix info, customer = ti_customer info,
                 location = ti_location info, machine = ti_machine info,
                 subtype = ti_subtype info, serial_number = None, ts_ms = None,
                 qos = q, retain = r, payload = None \<rparr>)"
  using assms by (simp add: build_event_def)

lemma build_event_with_payload:
  assumes "build_event lib topic b q r = Inr (Some ev)" and "payload ev = Some d"
  shows "safe_str lib (py_get d ''serial_number'') = Inr (serial_number ev)
       \<and> safe_int lib (py_get d ''ts'') = Inr (ts_ms ev)"
  using assms by (auto simp: build_event_def split: option.splits sum.splits)


text \<open>
  Claim C8.  For a topic with at least five non-empty segments, a body that is empty, that
  \<open>json.loads\<close> rejects, or that parses to a value other than an object still yields a
  decoded event, with no payload (and so no serial number and no timestamp).  The decoder
  yields nothing exactly when the topic has fewer than five non-empty segments.
\<close>

theorem build_event_signal_less:
  "(build_event lib topic payload_bytes q r = Inr None
      \<longleftrightarrow> length (filter (\<lambda>p. p \<noteq> []) (py_split (CHR ''/'') topic)) < 5)
   \<and> (5 \<le> length (filter (\<lambda>p. p \<noteq> []) (py_split (CHR ''/'') topic))
        \<and> (payload_bytes = []
            \<or> (\<exists>e. json_loads lib (payload_text lib payload_bytes) = Inl e)
            \<or> (\<exists>v. json_loads lib (payload_text lib payload_bytes) = Inr v \<and> (\<forall>d. v \<noteq> PDict d)))
      \<longrightarrow> (\<exists>ev. build_event lib topic payload_bytes q r = Inr (Some ev)
                 \<and> payload ev = None \<and> serial_number ev = None \<and> ts_ms ev = None))"
proof (intro conjI impI)
  show "build_event lib topic payload_bytes q r = Inr None
      \<longleftrightarrow> length (filter (\<lambda>p. p \<noteq> []) (py_split (CHR ''/'') topic)) < 5"
    by (simp add: build_event_None_iff parse_topic_None_iff)
next
  assume a: "5 \<le> length (filter (\<lambda>p. p \<noteq> []) (py_split (CHR ''/'') topic))
        \<and> (payload_bytes = []
            \<or> (\<exists>e. json_loads lib (payload_text lib payload_bytes) = Inl e)
            \<or> (\<exists>v. json_loads lib (payload_text lib payload_bytes) = Inr v \<and> (\<forall>d. v \<noteq> PDict d)))"
  then obtain info where info: "parse_topic topic = Some info"
    using parse_topic_None_iff [of topic] by (cases "parse_topic topic") auto
  have "parse_payload lib payload_bytes = Inr None"
    using a by (auto simp: parse_payload_def split: pyval.splits)
  then show "\<exists>ev. build_event lib topic payload_bytes q r = Inr (Some ev)
                 \<and> payload ev = None \<and> serial_number ev = None \<and> ts_ms ev = None"
    using build_event_no_payload [OF info] by simp
qed

lemma demo_topic_segments:
  "filter (\<lambda>p. p \<noteq> []) (py_split (CHR ''/'') ''iot/acme/plant1/line3/status'')
     = [''iot'', ''acme'', ''plant1'', ''line3'', ''status'']"
  by simp

theorem build_event_signal_less_witness:
  "5 \<le> length (filter (\<lambda>p. p \<noteq> []) (py_split (CHR ''/'') ''iot/acme/plant1/line3/status''))
   \<and> (\<exists>e. json_loads (fixed_lib (Inl JSONDecodeError))
             (payload_text (fixed_lib (Inl JSONDecodeError)) ''not json'') = Inl e)
   \<and> (\<exists>ev. build_event (fixed_lib (Inl JSONDecodeError)) ''iot/acme/plant1/line3/status''
              ''not json'' (Some 0) (Some False) = Inr (Some ev)
            \<and> payload ev = None \<and> serial_number ev = None \<and> ts_ms ev = None)"
  using build_event_signal_less [of "fixed_lib (Inl JSONDecodeError)" "''iot/acme/plant1/line3/status''"
      "''not json''" "Some 0" "Some False"]
  by (simp add: demo_topic_segments fixed_lib_def)

text \<open>
  Claim C10.  The decoder is total: for every topic and every body \<open>build_event\<close> returns
  (nothing or an event) and never raises, and so do \<open>parse_payload\<close>, \<open>_safe_str\<close> and
  \<open>_safe_int\<close>; an exception of \<open>json.loads\<close>, \<open>str\<close> or \<open>int\<close> is absorbed and
  gives an absent value.
\<close>

theorem build_event_never_raises:
  "(\<exists>res. build_event lib topic payload_bytes q r = Inr res)
   \<and> (\<exists>p. parse_payload lib payload_bytes = Inr p)
   \<and> (\<exists>s. safe_str lib v = Inr s)
   \<and> (\<exists>n. safe_int lib v = Inr n)
   \<and> ((\<exists>e. json_loads lib (payload_text lib payload_bytes) = Inl e)
        \<longrightarrow> parse_payload lib payload_bytes = Inr None)
   \<and> ((\<exists>e. py_str lib v = Inl e) \<longrightarrow> safe_str lib v = Inr None)
   \<and> ((\<exists>e. py_int lib v = Inl e) \<longrightarrow> safe_int lib v = Inr None)"
proof (intro conjI impI)
  show "\<exists>res. build_event lib topic payload_bytes q r = Inr res" by (rule build_event_total)
  show "\<exists>p. parse_payload lib payload_bytes = Inr p" by (rule parse_payload_total)
  show "\<exists>s. safe_str lib v = Inr s" by (rule safe_str_total)
  show "\<exists>n. safe_int lib v = Inr n" by (rule safe_int_total)
next
  assume "\<exists>e. json_loads lib (payload_text lib payload_bytes) = Inl e"
  then show "parse_payload lib payload_bytes = Inr None"
    by (auto simp: parse_payload_def)
next
  assume "\<exists>e. py_str lib v = Inl e"
  then show "safe_str lib v = Inr None"
    by (cases v) (auto simp: safe_str_def)
next
  assume "\<exists>e. py_int lib v = Inl e"
  then show "safe_int lib v = Inr None"
    by (cases v) (auto simp: safe_int_def)
qed

theorem build_event_never_raises_witness:
  "(\<exists>e. json_loads (fixed_lib (Inl JSONDecodeError))
          (payload_text (fixed_lib (Inl JSONDecodeError)) ''{'') = Inl e)
   \<and> (\<exists>e. py_str (fixed_lib (Inl JSONDecodeError)) (PList []) = Inl e)
   \<and> (\<exists>e. py_int (fixed_lib (Inl JSONDecodeError)) (PList []) = Inl e)
   \<and> (\<exists>res. build_event (fixed_lib (Inl JSONDecodeError)) ''a/b'' ''{'' None None = Inr res)
   \<and> parse_payload (fixed_lib (Inl JSONDecodeError)) ''{'' = Inr None
   \<and> safe_str (fixed_lib (Inl JSONDecodeError)) (PList []) = Inr None
   \<and> safe_int (fixed_lib (Inl JSONDecodeError)) (PList []) = Inr None"
  using build_event_never_raises [of "fixed_lib (Inl JSONDecodeError)" "''a/b''" "''{''" None None "PList []"]
  by (simp add: fixed_lib_def)

text \<open>
  Claim C9, as amended.  For an object payload with a \<open>serial_number\<close> field, the decoded
  event's serial number is the field's string form when the field is a string, a number or
  a boolean (\<open>str\<close> of the value: decimal digits for an integer, \<open>True\<close> or \<open>False\<close> for a
  boolean, the runtime's text for a float); for a null field the serial number is absent.
\<close>

theorem serial_number_string_form:
  assumes "build_event lib topic payload_bytes q r = Inr (Some ev)"
      and "payload ev = Some d"
      and "map_of d ''serial_number'' = Some v"
  shows "(v = PNone \<longrightarrow> serial_number ev = None)
       \<and> (\<forall>s. v = PStr s \<longrightarrow> serial_number ev = Some s)
       \<and> (\<forall>n. v = PInt n \<longrightarrow> serial_number ev = Some (str_int n))
       \<and> (\<forall>b. v = PBool b \<longrightarrow> serial_number ev = Some (if b then ''True'' else ''False''))
       \<and> (\<forall>f s. v = PFloat f \<and> str_other lib v = Inr s \<longrightarrow> serial_number ev = Some s)"
proof -
  have g: "py_get d ''serial_number'' = v" using assms(3) by (simp add: py_get_def)
  have "safe_str lib v = Inr (serial_number ev)"
    using build_event_with_payload [OF assms(1,2)] g by simp
  then show ?thesis by (auto simp: safe_str_def)
qed

theorem serial_number_string_form_witness:
  "build_event (fixed_lib (Inr (PDict [(''serial_number'', PInt 42)]))) ''iot/acme/plant1/line3/status''
      ''{}'' None None
     = Inr (Some \<lparr> prefix = ''iot'', customer = ''acme'', location = ''plant1'', machine = ''line3'',
                   subtype = ''status'', serial_number = Some ''42'', ts_ms = None, qos = None,
                   retain = None, payload = Some [(''serial_number'', PInt 42)] \<rparr>)
   \<and> serial_number \<lparr> prefix = ''iot'', customer = ''acme'', location = ''plant1'', machine = ''line3'',
                   subtype = ''status'', serial_number = Some ''42'', ts_ms = None, qos = None,
                   retain = None, payload = Some [(''serial_number'', PInt 42)] \<rparr> = Some (str_int 42)"
proof -
  have e: "build_event (fixed_lib (Inr (PDict [(''serial_number'', PInt 42)]))) ''iot/acme/plant1/line3/status''
      ''{}'' None None
     = Inr (Some \<lparr> prefix = ''iot'', customer = ''acme'', location = ''plant1'', machine = ''line3'',
                   subtype = ''status'', serial_number = Some ''42'', ts_ms = None, qos = None,
                   retain = None, payload = Some [(''serial_number'', PInt 42)] \<rparr>)"
    by (simp add: build_event_def parse_topic_by_segments fixed_lib_def parse_payload_def
        payload_text_def safe_str_def safe_int_def py_get_def str_int_def str_nat.simps)
  show ?thesis using e serial_number_string_form [OF e, of "[(''serial_number'', PInt 42)]" "PInt 42"]
    by simp
qed

text \<open>
  The claim as stated fails for null: the payload \<open>{"serial_number": null}\<close> gives an event
  with no serial number, not one with the text \<open>None\<close> or \<open>null\<close>.
\<close>

theorem serial_number_null_counterexample:
  "build_event (fixed_lib (Inr (PDict [(''serial_number'', PNone)]))) ''iot/acme/plant1/line3/status''
      ''{}'' None None
     = Inr (Some \<lparr> prefix = ''iot'', customer = ''acme'', location = ''plant1'', machine = ''line3'',
                   subtype = ''status'', serial_number = None, ts_ms = None, qos = None,
                   retain = None, payload = Some [(''serial_number'', PNone)] \<rparr>)"
  by (simp add: build_event_def parse_topic_by_segments fixed_lib_def parse_payload_def
        payload_text_def safe_str_def safe_int_def py_get_def)

section \<open>Properties of the status store\<close>

lemma find_snoc_new:
  "find P xs = None \<Longrightarrow> P x \<Longrightarrow> find P (xs @ [x]) = Some x"
  by (induction xs) (auto split: if_splits)

lemma find_map_same_key:
  assumes "\<And>r. P (f r) = P r"
  shows "find P (map f xs) = map_option f (find P xs)"
  using assms by (induction xs) auto

lemma upsert_status_row_new:
  assumes "status_select_by_device_id tbl d = None"
  shows "status_select_by_device_id (snd (upsert_status tbl d s te td)) d =
     Some \<lparr> st_id = next_id tbl, st_device_id = d, st_status = s, st_ts_epoch = te,
            st_ts_datetime = td,
            st_offline_since = (if s = ''offline'' then Some td else None) \<rparr>"
  using assms
  by (simp add: upsert_status_def insert_status_def status_select_by_device_id_def find_snoc_new)

lemma upsert_status_row_old:
  assumes "status_select_by_device_id tbl d = Some row"
  shows "status_select_by_device_id (snd (upsert_status tbl d s te td)) d =
     Some (row \<lparr> st_status := s, st_ts_epoch := te, st_ts_datetime := td,
                 st_offline_since :=
                   (if s = ''offline''
                    then (case st_offline_since row of Some p \<Rightarrow> Some p | None \<Rightarrow> Some td)
                    else None) \<rparr>)"
proof -
  let ?f = "\<lambda>r. if st_id r = st_id row
                 then r \<lparr> st_status := s, st_ts_epoch := te, st_ts_datetime := td,
                          st_offline_since :=
                            (if s = ''offline''
                             then (case st_offline_since row of Some p \<Rightarrow> Some p | None \<Rightarrow> Some td)
                             else None) \<rparr>
                 else r"
  have "find (\<lambda>r. st_device_id r = d) (map ?f (rows tbl))
          = map_option ?f (find (\<lambda>r. st_device_id r = d) (rows tbl))"
    by (rule find_map_same_key) simp
  then show ?thesis
    using assms
    by (simp add: upsert_status_def update_status_def status_select_by_device_id_def Let_def)
qed

lemma upsert_status_invariant:
  assumes "\<forall>r \<in> set (rows tbl). status_invariant r"
  shows "\<forall>r \<in> set (rows (snd (upsert_status tbl d s te td))). status_invariant r"
  using assms
  by (auto simp: upsert_status_def insert_status_def update_status_def status_invariant_def Let_def
           split: option.splits)

lemma upsert_status_all_invariant:
  "\<forall>r \<in> set (rows tbl). status_invariant r \<Longrightarrow>
   \<forall>r \<in> set (rows (upsert_status_all tbl ops)). status_invariant r"
proof (induction ops arbitrary: tbl)
  case Nil
  then show ?case by simp
next
  case (Cons op ops)
  obtain d s te td where op: "op = (d, s, te, td)" by (cases op) auto
  show ?case
    unfolding op upsert_status_all.simps
    by (rule Cons.IH) (rule upsert_status_invariant [OF Cons.prems])
qed

text \<open>
  Claim C2, as amended.  For a device that has no status row, or whose row has a null
  \<open>offline_since\<close>, two consecutive offline events with timestamps \<open>t1\<close> then \<open>t2\<close> leave
  \<open>offline_since\<close> equal to \<open>t1\<close>.  For every table, the second offline event leaves
  \<open>offline_since\<close> as the first one left it (the since-time is sticky), and an offline event
  followed by an online event leaves \<open>offline_since\<close> null.
\<close>

theorem status_offline_since_sticky:
  "((\<forall>r. status_select_by_device_id tbl d = Some r \<longrightarrow> st_offline_since r = None) \<longrightarrow>
      (\<exists>r. status_select_by_device_id
              (snd (upsert_status (snd (upsert_status tbl d ''offline'' e1 t1)) d ''offline'' e2 t2)) d
              = Some r
          \<and> st_status r = ''offline'' \<and> st_offline_since r = Some t1))
   \<and> (\<exists>r1 r2. status_select_by_device_id (snd (upsert_status tbl d ''offline'' e1 t1)) d = Some r1
          \<and> status_select_by_device_id
              (snd (upsert_status (snd (upsert_status tbl d ''offline'' e1 t1)) d ''offline'' e2 t2)) d
              = Some r2
          \<and> st_offline_since r1 \<noteq> None \<and> st_offline_since r2 = st_offline_since r1)
   \<and> (\<exists>r. status_select_by_device_id
              (snd (upsert_status (snd (upsert_status tbl d ''offline'' e1 t1)) d ''online'' e2 t2)) d
              = Some r
          \<and> st_status r = ''online'' \<and> st_offline_since r = None)"
proof -
  let ?t1 = "snd (upsert_status tbl d ''offline'' e1 t1)"
  obtain r1 where r1: "status_select_by_device_id ?t1 d = Some r1"
     and since1: "st_offline_since r1 =
        (case status_select_by_device_id tbl d of
           None \<Rightarrow> Some t1
         | Some r \<Rightarrow> (case st_offline_since r of Some p \<Rightarrow> Some p | None \<Rightarrow> Some t1))"
  proof (cases "status_select_by_device_id tbl d")
    case None
    show ?thesis using that upsert_status_row_new [OF None, of "''offline''" e1 t1] None by simp
  next
    case (Some row)
    show ?thesis using that upsert_status_row_old [OF Some, of "''offline''" e1 t1] Some by simp
  qed
  have ne: "st_offline_since r1 \<noteq> None"
    using since1 by (auto split: option.splits)
  note off = upsert_status_row_old [OF r1, of "''offline''" e2 t2]
  note on = upsert_status_row_old [OF r1, of "''online''" e2 t2]
  have a: "(\<forall>r. status_select_by_device_id tbl d = Some r \<longrightarrow> st_offline_since r = None) \<longrightarrow>
      (\<exists>r. status_select_by_device_id (snd (upsert_status ?t1 d ''offline'' e2 t2)) d = Some r
          \<and> st_status r = ''offline'' \<and> st_offline_since r = Some t1)"
    using off since1 by (auto split: option.splits)
  have b: "\<exists>r1 r2. status_select_by_device_id ?t1 d = Some r1
          \<and> status_select_by_device_id (snd (upsert_status ?t1 d ''offline'' e2 t2)) d = Some r2
          \<and> st_offline_since r1 \<noteq> None \<and> st_offline_since r2 = st_offline_since r1"
    using off r1 ne by (auto split: option.splits)
  have c: "\<exists>r. status_select_by_device_id (snd (upsert_status ?t1 d ''online'' e2 t2)) d = Some r
          \<and> st_status r = ''online'' \<and> st_offline_since r = None"
    using on by simp
  show ?thesis using a b c by blast
qed

text \<open>
  The claim as stated fails on a row that is already offline: the earlier since-time stays,
  so after the events at seconds 10 and 20 \<open>offline_since\<close> is still second 5, not 10.
\<close>

theorem status_offline_since_counterexample:
  "map_option st_offline_since
     (status_select_by_device_id
        (snd (upsert_status (snd (upsert_status demo_offline_table 7 ''offline'' 10 10000000))
                7 ''offline'' 20 20000000)) 7)
   = Some (Some 5000000)"
  by (simp add: demo_offline_table_def upsert_status_def update_status_def
      status_select_by_device_id_def)

theorem status_offline_since_sticky_witness:
  "status_select_by_device_id \<lparr> rows = [], next_id = 1 \<rparr> 7 = None
   \<and> (\<exists>r. status_select_by_device_id
              (snd (upsert_status (snd (upsert_status \<lparr> rows = [], next_id = 1 \<rparr> 7 ''offline'' 10 10000000))
                 7 ''offline'' 20 20000000)) 7 = Some r
          \<and> st_status r = ''offline'' \<and> st_offline_since r = Some 10000000)"
  using status_offline_since_sticky [of "\<lparr> rows = [], next_id = 1 \<rparr>" 7 10 10000000 20 20000000]
  by (simp add: status_select_by_device_id_def)

text \<open>
  Claim C3.  The status table keeps the invariant that \<open>offline_since\<close> is non-null exactly
  when the status is \<open>offline\<close>: every \<open>upsert_status\<close> (the first insert of a device's row
  and every later update) preserves it on all rows, hence so does every sequence of them, and
  it holds after every sequence that starts from the empty table.
\<close>

theorem status_invariant_preserved:
  "((\<forall>r \<in> set (rows tbl). status_invariant r) \<longrightarrow>
      (\<forall>r \<in> set (rows (snd (upsert_status tbl d s te td))). status_invariant r))
   \<and> ((\<forall>r \<in> set (rows tbl). status_invariant r) \<longrightarrow>
      (\<forall>r \<in> set (rows (upsert_status_all tbl ops)). status_invariant r))
   \<and> (\<forall>r \<in> set (rows (upsert_status_all \<lparr> rows = [], next_id = n \<rparr> ops)). status_invariant r)"
proof (intro conjI impI)
  assume "\<forall>r \<in> set (rows tbl). status_invariant r"
  then show "\<forall>r \<in> set (rows (snd (upsert_status tbl d s te td))). status_invariant r"
    by (rule upsert_status_invariant)
next
  assume "\<forall>r \<in> set (rows tbl). status_invariant r"
  then show "\<forall>r \<in> set (rows (upsert_status_all tbl ops)). status_invariant r"
    by (rule upsert_status_all_invariant)
next
  show "\<forall>r \<in> set (rows (upsert_status_all \<lparr> rows = [], next_id = n \<rparr> ops)). status_invariant r"
    by (rule upsert_status_all_invariant) simp
qed

theorem status_invariant_preserved_witness:
  "rows (upsert_status_all \<lparr> rows = [], next_id = 1 \<rparr>
           [(7, ''offline'', 10, 10000000), (7, ''online'', 20, 20000000),
            (8, ''offline'', 30, 30000000)])
     = [\<lparr> st_id = 1, st_device_id = 7, st_status = ''online'', st_ts_epoch = 20,
           st_ts_datetime = 20000000, st_offline_since = None \<rparr>,
        \<lparr> st_id = 2, st_device_id = 8, st_status = ''offline'', st_ts_epoch = 30,
           st_ts_datetime = 30000000, st_offline_since = Some 30000000 \<rparr>]
   \<and> list_all status_invariant
        (rows (upsert_status_all \<lparr> rows = [], next_id = 1 \<rparr>
           [(7, ''offline'', 10, 10000000), (7, ''online'', 20, 20000000),
            (8, ''offline'', 30, 30000000)]))"
proof -
  have "\<forall>r \<in> set (rows (upsert_status_all \<lparr> rows = [], next_id = 1 \<rparr>
           [(7, ''offline'', 10, 10000000), (7, ''online'', 20, 20000000),
            (8, ''offline'', 30, 30000000)])). status_invariant r"
    using status_invariant_preserved [of "\<lparr> rows = [], next_id = 1 \<rparr>" 7 "''offline''" 10 10000000
        "[(7, ''offline'', 10, 10000000), (7, ''online'', 20, 20000000), (8, ''offline'', 30, 30000000)]" 1]
    by blast
  then have "list_all status_invariant
        (rows (upsert_status_all \<lparr> rows = [], next_id = 1 \<rparr>
           [(7, ''offline'', 10, 10000000), (7, ''online'', 20, 20000000),
            (8, ''offline'', 30, 30000000)]))"
    by (simp only: list_all_iff)
  moreover have "rows (upsert_status_all \<lparr> rows = [], next_id = 1 \<rparr>
           [(7, ''offline'', 10, 10000000), (7, ''online'', 20, 20000000),
            (8, ''offline'', 30, 30000000)])
     = [\<lparr> st_id = 1, st_device_id = 7, st_status = ''online'', st_ts_epoch = 20,
           st_ts_datetime = 20000000, st_offline_since = None \<rparr>,
        \<lparr> st_id = 2, st_device_id = 8, st_status = ''offline'', st_ts_epoch = 30,
           st_ts_datetime = 30000000, st_offline_since = Some 30000000 \<rparr>]"
    by (simp add: upsert_status_def update_status_def insert_status_def
        status_select_by_device_id_def)
  ultimately show ?thesis by blast
qed

section \<open>Properties of the statistics store\<close>








section \<open>Frame conditions of the status and OS-version stores\<close>








section \<open>Properties of the storage store\<close>

lemma normalize_drive_C: "normalize_drive lib (PStr ''C'') = Some ''C''"
  by (simp add: normalize_drive_def py_strip_def is_space_def py_upper_def upper_char_def)

lemma normalize_drive_c_colon: "normalize_drive lib (PStr ''c:'') = Some ''C''"
  by (simp add: normalize_drive_def py_strip_def is_space_def py_upper_def upper_char_def)

lemma normalize_drive_C_colon_backslash:
  "normalize_drive lib (PStr [CHR ''C'', CHR '':'', CHR 0x5C]) = Some ''C''"
  by (simp add: normalize_drive_def py_strip_def is_space_def py_upper_def upper_char_def)

lemma normalize_drive_CC: "normalize_drive lib (PStr ''CC'') = None"
  by (simp add: normalize_drive_def py_strip_def is_space_def py_upper_def upper_char_def)

lemma normalize_drive_1: "normalize_drive lib (PStr ''1'') = None"
  by (simp add: normalize_drive_def py_strip_def is_space_def py_upper_def upper_char_def)

lemma single_letter_range:
  assumes "''A'' \<le> [c]" and "[c] \<le> ''Z''"
  shows "CHR ''A'' \<le> c \<and> c \<le> CHR ''Z''"
  using assms by (auto simp: less_le)

lemma normalize_drive_letter:
  assumes "normalize_drive lib v = Some d"
  shows "\<exists>c. d = [c] \<and> CHR ''A'' \<le> c \<and> c \<le> CHR ''Z''"
proof -
  from assms obtain drive where d: "length drive = 1" "''A'' \<le> drive" "drive \<le> ''Z''" "d = drive"
    by (auto simp: normalize_drive_def Let_def split: option.splits if_splits)
  then obtain c where "drive = [c]" by (cases drive) auto
  then show ?thesis using d single_letter_range by auto
qed

lemma upsert_drives_skip:
  "normalize_drive lib (PStr drive) = None \<Longrightarrow>
   upsert_drives lib device_id ts_epoch ts_dt ((drive, info) # rest) tbl upserts =
   upsert_drives lib device_id ts_epoch ts_dt rest tbl upserts"
  by simp

text \<open>
  Claim C6.  The drive names \<open>C\<close>, \<open>c:\<close> and \<open>C:\<close> followed by a backslash all normalize to
  \<open>C\<close>; the names
  \<open>CC\<close> and \<open>1\<close> are rejected.  Every accepted name normalizes to exactly one character
  between \<open>A\<close> and \<open>Z\<close>.  A drive whose name is rejected is passed over by the store's loop:
  the rest of the packet is processed as if the drive were not there, and nothing is raised.
\<close>

theorem drive_normalization:
  "normalize_drive lib (PStr ''C'') = Some ''C''
   \<and> normalize_drive lib (PStr ''c:'') = Some ''C''
   \<and> normalize_drive lib (PStr [CHR ''C'', CHR '':'', CHR 0x5C]) = Some ''C''
   \<and> normalize_drive lib (PStr ''CC'') = None
   \<and> normalize_drive lib (PStr ''1'') = None
   \<and> (normalize_drive lib v = Some d \<longrightarrow> (\<exists>c. d = [c] \<and> CHR ''A'' \<le> c \<and> c \<le> CHR ''Z''))
   \<and> (normalize_drive lib (PStr drive) = None \<longrightarrow>
        upsert_drives lib device_id ts_epoch ts_dt ((drive, info) # rest) tbl upserts =
        upsert_drives lib device_id ts_epoch ts_dt rest tbl upserts)"
  using normalize_drive_C normalize_drive_c_colon normalize_drive_C_colon_backslash
    normalize_drive_CC normalize_drive_1 normalize_drive_letter upsert_drives_skip
  by blast

theorem drive_normalization_witness:
  "normalize_drive (fixed_lib (Inl JSONDecodeError)) (PStr ''c:'') = Some ''C''
   \<and> (\<exists>c. ''C'' = [c] \<and> CHR ''A'' \<le> c \<and> c \<le> CHR ''Z'')
   \<and> normalize_drive (fixed_lib (Inl JSONDecodeError)) (PStr ''CC'') = None
   \<and> storage_ensure_from_event (fixed_lib (Inl JSONDecodeError)) demo_clock
        (storage_event [(''storage'',
           PDict [(''CC'', PDict [(''total_gb'', PInt 100)]),
                  (''c:'', PDict [(''total_gb'', PInt 100), (''format'', PStr ''NTFS'')]),
                  (''1'', PDict [])])])
        7 \<lparr> rows = [], next_id = 1 \<rparr>
     = (Inr 1,
        \<lparr> rows = [\<lparr> sg_id = 1, sg_device_id = 7, sg_drive = ''C'', sg_drive_type = None,
                    sg_format = Some ''NTFS'', sg_total_gb = Some (Finite False 100 0),
                    sg_free_gb = None, sg_used_gb = None, sg_usage_percent = None,
                    sg_ts_epoch = 1700000100, sg_ts_datetime = 1700000100000000 \<rparr>],
          next_id = 2 \<rparr>)"
proof -
  let ?lib = "fixed_lib (Inl JSONDecodeError)"
  let ?tbl = "\<lparr> rows = [], next_id = 1 \<rparr> :: storage_row table"
  let ?rest = "[(''c:'', PDict [(''total_gb'', PInt 100), (''format'', PStr ''NTFS'')]),
                (''1'', PDict [])]"
  note t = drive_normalization [of ?lib "PStr ''c:''" "''C''" "''CC''" 7 1700000100 1700000100000000
      "PDict [(''total_gb'', PInt 100)]" ?rest ?tbl 0]
  have a: "normalize_drive ?lib (PStr ''c:'') = Some ''C''" using t by blast
  have b: "\<exists>c. ''C'' = [c] \<and> CHR ''A'' \<le> c \<and> c \<le> CHR ''Z''" using t by blast
  have c: "normalize_drive ?lib (PStr ''CC'') = None" using t by blast
  have skip: "upsert_drives ?lib 7 1700000100 1700000100000000
               ((''CC'', PDict [(''total_gb'', PInt 100)]) # ?rest) ?tbl 0
            = upsert_drives ?lib 7 1700000100 1700000100000000 ?rest ?tbl 0"
    using t by blast
  have one: "normalize_drive ?lib (PStr ''1'') = None" using t by blast
  have vals: "read_drive_values ?lib [(''total_gb'', PInt 100), (''format'', PStr ''NTFS'')]
     = Inr \<lparr> dv_drive_type = None, dv_format = Some ''NTFS'',
             dv_total_gb = Some (Finite False 100 0), dv_free_gb = None, dv_used_gb = None,
             dv_usage_percent = None \<rparr>"
    by (simp add: read_drive_values_def py_get_def safe_float_def safe_str_def float_of_int_def
        fixed_lib_def)
  have rest: "upsert_drives ?lib 7 1700000100 1700000100000000 ?rest ?tbl 0
     = (Inr 1,
        \<lparr> rows = [\<lparr> sg_id = 1, sg_device_id = 7, sg_drive = ''C'', sg_drive_type = None,
                    sg_format = Some ''NTFS'', sg_total_gb = Some (Finite False 100 0),
                    sg_free_gb = None, sg_used_gb = None, sg_usage_percent = None,
                    sg_ts_epoch = 1700000100, sg_ts_datetime = 1700000100000000 \<rparr>],
          next_id = 2 \<rparr>)"
    using a one vals
    by (simp add: upsert_drive_def select_by_device_and_drive_def insert_drive_def)
  have "storage_ensure_from_event ?lib demo_clock
        (storage_event [(''storage'',
           PDict [(''CC'', PDict [(''total_gb'', PInt 100)]),
                  (''c:'', PDict [(''total_gb'', PInt 100), (''format'', PStr ''NTFS'')]),
                  (''1'', PDict [])])])
        7 ?tbl
      = upsert_drives ?lib 7 1700000100 1700000100000000
               ((''CC'', PDict [(''total_gb'', PInt 100)]) # ?rest) ?tbl 0"
    by (simp add: storage_ensure_from_event_def storage_event_def py_get_def event_timestamp_def
        demo_clock_def del: upsert_drives.simps)
  then show ?thesis using a b c skip rest by simp
qed

section \<open>Properties of the message handler\<close>

text \<open>
  The stores are isolated from one another: once the device is resolved, each configured
  store of the event's subtype is applied to the world the previous one left, in the
  handler's order, and each exception adds one log entry and nothing else.
\<close>

lemma guarded_store_effect:
  "guarded_store label store wanted (Some res) event (w, log) =
     (store_effect store wanted event (row_id res) w,
      log @ store_failure label store wanted event (row_id res) w)"
  by (auto simp: guarded_store_def try_store_def store_effect_def store_failure_def
           split: option.splits prod.splits)

lemma dispatch_stores_effect:
  "dispatch_stores sts (Some res) event (w, log) =
     (let d = row_id res;
          w1 = store_effect (device_status_store sts) ''status'' event d w;
          w2 = store_effect (device_os_status_store sts) ''status'' event d w1;
          w3 = store_effect (device_storage_status_store sts) ''storage'' event d w2;
          w4 = store_effect (device_statistics_store sts) ''statistics'' event d w3
      in (w4,
          log @ store_failure ''Device status upsert failed'' (device_status_store sts) ''status'' event d w
              @ store_failure ''Device OS status upsert failed'' (device_os_status_store sts) ''status'' event d w1
              @ store_failure ''Device storage upsert failed'' (device_storage_status_store sts) ''storage'' event d w2
              @ store_failure ''Device statistics insert failed'' (device_statistics_store sts) ''statistics'' event d w3))"
  by (simp add: dispatch_stores_def guarded_store_effect Let_def)

text \<open>
  After the stores, the handler formats the log line; it returns normally exactly when
  \<open>to_log_line\<close> does.
\<close>

lemma on_message_stores_isolated:
  assumes "build_event lib (msg_topic msg) (msg_payload msg) (msg_qos msg) (msg_retain msg) = Inr (Some event)"
      and "device_store sts = Some ensure"
      and "ensure event w = (Inr (Some res), w0)"
  shows "on_message lib sts msg (w, log) =
     (let st' = dispatch_stores sts (Some res) event (w0, log)
      in case to_log_line lib event of
           Inl e \<Rightarrow> (Inl e, st')
         | Inr line \<Rightarrow> (Inr (), fst st', snd st' @ [LogInfo line]))"
  using assms by (simp add: on_message_def Let_def)

lemma huge_float_overflows: "float_of_int lib huge_int = Inl OverflowError"
  by (simp add: float_of_int_def huge_int_def)

lemma safe_float_huge: "safe_float lib (PInt huge_int) = Inl OverflowError"
  by (simp add: safe_float_def huge_float_overflows)

lemma to_log_line_huge:
  assumes "subtype event = ''storage''" and "payload event = Some huge_storage_payload"
  shows "to_log_line lib event = Inl OverflowError"
  using assms
  by (simp add: to_log_line_def Let_def huge_storage_payload_def py_get_def storage_part_def
      safe_float_huge)

lemma storage_ensure_huge:
  assumes "subtype event = ''storage''" and "payload event = Some huge_storage_payload"
      and "ts_ms event = None"
  shows "storage_ensure_from_event lib clk event device_id tbl = (Inl OverflowError, tbl)"
proof -
  have n: "normalize_drive lib (PStr ''C'') = Some ''C''" by (rule normalize_drive_C)
  have r: "read_drive_values lib [(''used_pct'', PInt huge_int)] = Inl OverflowError"
    by (simp add: read_drive_values_def py_get_def safe_float_def huge_float_overflows)
  show ?thesis
    using assms n r
    by (simp add: storage_ensure_from_event_def huge_storage_payload_def py_get_def
        event_timestamp_def)
qed

lemma build_event_huge:
  "build_event (fixed_lib (Inr (PDict huge_storage_payload))) (msg_topic huge_storage_message)
     (msg_payload huge_storage_message) (msg_qos huge_storage_message)
     (msg_retain huge_storage_message)
   = Inr (Some \<lparr> prefix = ''iot'', customer = ''acme'', location = ''plant1'', machine = ''line3'',
                 subtype = ''storage'', serial_number = Some ''SN1'', ts_ms = None, qos = Some 0,
                 retain = Some False, payload = Some huge_storage_payload \<rparr>)"
proof -
  have s: "py_get huge_storage_payload ''serial_number'' = PStr ''SN1''"
    and t: "py_get huge_storage_payload ''ts'' = PNone"
    by (simp_all add: huge_storage_payload_def py_get_def)
  show ?thesis
    by (simp add: build_event_def parse_topic_by_segments huge_storage_message_def fixed_lib_def
        parse_payload_def payload_text_def s t safe_str_def safe_int_def)
qed

text \<open>
  Claim C1 says that an exception of a store is caught at the dispatch boundary, that the
  other stores still run, and that the handler returns normally.  The first two hold (see
  above).  The third does not: on the storage packet with the huge \<open>used_pct\<close> the storage
  store raises \<open>OverflowError\<close> (from \<open>float\<close> of the integer, in \<open>_safe_float\<close>), which the
  handler catches; then \<open>to_log_line\<close>, called outside every \<open>try\<close> block, raises the same
  exception from its own \<open>_safe_float\<close>, and the handler raises, whatever the stores are
  and whatever state they are in.
\<close>

theorem on_message_raises_on_huge_storage_value:
  "fst (on_message (fixed_lib (Inr (PDict huge_storage_payload))) sts huge_storage_message st)
     = Inl OverflowError
   \<and> storage_ensure_from_event (fixed_lib (Inr (PDict huge_storage_payload))) clk
        \<lparr> prefix = ''iot'', customer = ''acme'', location = ''plant1'', machine = ''line3'',
          subtype = ''storage'', serial_number = Some ''SN1'', ts_ms = None, qos = Some 0,
          retain = Some False, payload = Some huge_storage_payload \<rparr> device_id tbl
     = (Inl OverflowError, tbl)"
proof
  let ?lib = "fixed_lib (Inr (PDict huge_storage_payload))"
  let ?ev = "\<lparr> prefix = ''iot'', customer = ''acme'', location = ''plant1'', machine = ''line3'',
          subtype = ''storage'', serial_number = Some ''SN1'', ts_ms = None, qos = Some 0,
          retain = Some False, payload = Some huge_storage_payload \<rparr>"
  have l: "to_log_line ?lib ?ev = Inl OverflowError"
    by (rule to_log_line_huge) simp_all
  show "fst (on_message ?lib sts huge_storage_message st) = Inl OverflowError"
    using build_event_huge l
    by (simp add: on_message_def Let_def split: option.splits prod.splits sum.splits)
  show "storage_ensure_from_event ?lib clk ?ev device_id tbl = (Inl OverflowError, tbl)"
    by (rule storage_ensure_huge) simp_all
qed

end
